theory Spec2Isabelle
  imports Complex_Main
begin

section \<open>Windowed slicing of a token stream: \<open>get_batch\<close>\<close>

text \<open>
  The notebook \<^verbatim>\<open>use_pretrained_lm.ipynb\<close> defines
  \<^verbatim>\<open>
  def get_batch(data_source, i, seq_len=None):
      seq_len = min(seq_len if seq_len else bptt, len(data_source) - 1 - i)
      data = data_source[i:i + seq_len]
      target = data_source[i + 1:i + 1 + seq_len]
      return data, target
  \<close>
  The data source the notebook passes is an array of the framework, indexed along
  its first axis (one row per time step); it is modelled as the list of its rows.
  Indices are Python integers, hence \<open>int\<close>. The global \<^verbatim>\<open>bptt\<close> that the function
  reads (the notebook binds it to 2000 before the cache evaluation) is passed as a
  parameter.
\<close>

text \<open>
  A bound of the slice \<^verbatim>\<open>xs[a:b]\<close> on \<open>n\<close> rows: a negative bound counts from the
  end, and every bound is brought into \<open>0..n\<close>.
\<close>

definition slice_bound :: "int \<Rightarrow> int \<Rightarrow> int" where
  "slice_bound n a = (if a < 0 then max (a + n) 0 else min a n)"

text \<open>
  The slice returns the rows from the lower bound up to the upper bound, and no
  row when the two bounds are equal. A range whose upper bound lies below its lower
  bound is not the empty slice it would be on a Python list: the array rejects it
  as an invalid slicing range.
\<close>

datatype array_error = InvalidSlicingRange

definition py_slice :: "'a list \<Rightarrow> int \<Rightarrow> int \<Rightarrow> array_error + 'a list" where
  "py_slice xs a b =
     (let n = int (length xs);
          lo = slice_bound n a;
          hi = slice_bound n b
      in if hi < lo then Inl InvalidSlicingRange
         else Inr (take (nat (hi - lo)) (drop (nat lo) xs)))"

text \<open>
  The expression \<^verbatim>\<open>seq_len if seq_len else bptt\<close>: the argument is chosen by
  truthiness, so both \<^verbatim>\<open>None\<close> and \<open>0\<close> select the global.
\<close>

definition window_size :: "int \<Rightarrow> int option \<Rightarrow> int" where
  "window_size bptt seq_len =
     (case seq_len of
        None \<Rightarrow> bptt
      | Some s \<Rightarrow> if s \<noteq> 0 then s else bptt)"

text \<open>
  \<open>get_batch\<close> has no check of its own: it fails exactly when one of its two slices
  does, the data slice first.
\<close>

definition get_batch ::
  "int \<Rightarrow> 'a list \<Rightarrow> int \<Rightarrow> int option \<Rightarrow> array_error + 'a list \<times> 'a list" where
  "get_batch bptt data_source i seq_len =
     (let seq_len' = min (window_size bptt seq_len) (int (length data_source) - 1 - i)
      in case py_slice data_source i (i + seq_len') of
           Inl err \<Rightarrow> Inl err
         | Inr data \<Rightarrow>
             (case py_slice data_source (i + 1) (i + 1 + seq_len') of
                Inl err \<Rightarrow> Inl err
              | Inr target \<Rightarrow> Inr (data, target)))"

section \<open>Hidden state and \<open>detach\<close>\<close>

text \<open>
  Both notebooks define
  \<^verbatim>\<open>
  def detach(hidden):
      if isinstance(hidden, (tuple, list)):
          hidden = [detach(i) for i in hidden]
      else:
          hidden = hidden.detach()
      return hidden
  \<close>
  A hidden state is a leaf (an array of the framework, with its own \<^verbatim>\<open>detach\<close>
  method) or a tuple or a list of hidden states. The leaf's method belongs to the
  framework and is the parameter \<open>leaf_detach\<close>. The comprehension builds a list
  whether the node was a tuple or a list.
\<close>

datatype 'h hidden = Leaf 'h | PyTuple "'h hidden list" | PyList "'h hidden list"

fun detach :: "('h \<Rightarrow> 'h) \<Rightarrow> 'h hidden \<Rightarrow> 'h hidden" where
  "detach leaf_detach (PyTuple hs) = PyList (map (detach leaf_detach) hs)"
| "detach leaf_detach (PyList hs) = PyList (map (detach leaf_detach) hs)"
| "detach leaf_detach (Leaf h) = Leaf (leaf_detach h)"

text \<open>
  What the claims observe of a hidden state: its leaves from left to right, its
  nesting depth, its shape (the tree with the leaf values and the tuple/list tags
  erased, so the number of children at every level), and whether every inner node
  is a list.
\<close>

fun leaves :: "'h hidden \<Rightarrow> 'h list" where
  "leaves (Leaf h) = [h]"
| "leaves (PyTuple hs) = concat (map leaves hs)"
| "leaves (PyList hs) = concat (map leaves hs)"

fun depth :: "'h hidden \<Rightarrow> nat" where
  "depth (Leaf h) = 0"
| "depth (PyTuple hs) = Suc (foldr max (map depth hs) 0)"
| "depth (PyList hs) = Suc (foldr max (map depth hs) 0)"

datatype shape = SLeaf | SNode "shape list"

fun shape_of :: "'h hidden \<Rightarrow> shape" where
  "shape_of (Leaf h) = SLeaf"
| "shape_of (PyTuple hs) = SNode (map shape_of hs)"
| "shape_of (PyList hs) = SNode (map shape_of hs)"

fun only_lists :: "'h hidden \<Rightarrow> bool" where
  "only_lists (Leaf h) = True"
| "only_lists (PyTuple hs) = False"
| "only_lists (PyList hs) = list_all only_lists hs"

section \<open>Errors\<close>

text \<open>
  The exceptions the evaluation functions can end with: \<^verbatim>\<open>ValueError\<close> from
  \<^verbatim>\<open>range\<close> with step 0, \<^verbatim>\<open>ZeroDivisionError\<close> from the final division, the
  array's error from a slice in \<open>get_batch\<close>, and whatever the model's forward call
  raises; the last two are carried unchanged.
\<close>

datatype 'e py_error =
  ValueError | ZeroDivisionError | ArrayError array_error | ModelFailure 'e

section \<open>The evaluation loop \<open>evaluate\<close>\<close>

text \<open>
  Both notebooks define
  \<^verbatim>\<open>
  def evaluate(model, data_source, batch_size, ctx):
      total_L = 0.0
      ntotal = 0
      hidden = model.begin_state(
          batch_size=batch_size, func=mx.nd.zeros, ctx=ctx)
      for i, (data, target) in enumerate(data_source):
          data = data.as_in_context(ctx)
          target = target.as_in_context(ctx)
          output, hidden = model(data, hidden)
          hidden = detach(hidden)
          L = loss(output.reshape(-3, -1), target.reshape(-1))
          total_L += mx.nd.sum(L).asscalar()
          ntotal += L.size
      return total_L / ntotal
  \<close>
  The model is an object of the framework: its two methods are the fields of a
  record, and its forward call either fails with an exception value or returns the
  output and the new hidden state. The global \<^verbatim>\<open>loss\<close> is a parameter giving the
  per-example losses of a chunk. The device context only moves arrays between
  devices and is left out. Losses are real numbers: rounding of floating-point
  arithmetic is not modelled.
\<close>

record ('x, 'o, 'h, 'e) language_model =
  lm_begin_state :: "int \<Rightarrow> 'h hidden"
  lm_call :: "'x \<Rightarrow> 'h hidden \<Rightarrow> 'e + ('o \<times> 'h hidden)"

record 'h eval_state =
  es_total_L :: real
  es_ntotal :: nat
  es_hidden :: "'h hidden"

fun evaluate_loop ::
  "('h \<Rightarrow> 'h) \<Rightarrow> ('x, 'o, 'h, 'e) language_model \<Rightarrow> ('o \<Rightarrow> 't \<Rightarrow> real list) \<Rightarrow>
   ('x \<times> 't) list \<Rightarrow> 'h eval_state \<Rightarrow> 'e py_error + 'h eval_state" where
  "evaluate_loop leaf_detach model loss [] st = Inr st"
| "evaluate_loop leaf_detach model loss ((data, target) # rest) st =
     (case lm_call model data (es_hidden st) of
        Inl e \<Rightarrow> Inl (ModelFailure e)
      | Inr (output, hidden) \<Rightarrow>
          (let L = loss output target
           in evaluate_loop leaf_detach model loss rest
                \<lparr>es_total_L = es_total_L st + sum_list L,
                 es_ntotal = es_ntotal st + length L,
                 es_hidden = detach leaf_detach hidden\<rparr>))"

definition evaluate_init :: "('x, 'o, 'h, 'e) language_model \<Rightarrow> int \<Rightarrow> 'h eval_state" where
  "evaluate_init model batch_size =
     \<lparr>es_total_L = 0, es_ntotal = 0, es_hidden = lm_begin_state model batch_size\<rparr>"

definition evaluate ::
  "('h \<Rightarrow> 'h) \<Rightarrow> ('x, 'o, 'h, 'e) language_model \<Rightarrow> ('o \<Rightarrow> 't \<Rightarrow> real list) \<Rightarrow>
   ('x \<times> 't) list \<Rightarrow> int \<Rightarrow> 'e py_error + real" where
  "evaluate leaf_detach model loss data_source batch_size =
     (case evaluate_loop leaf_detach model loss data_source (evaluate_init model batch_size) of
        Inl err \<Rightarrow> Inl err
      | Inr st \<Rightarrow>
          if es_ntotal st = 0 then Inl ZeroDivisionError
          else Inr (es_total_L st / real (es_ntotal st)))"

section \<open>The cache evaluation loop \<open>evaluate_cache\<close>\<close>

text \<open>
  \<^verbatim>\<open>
  def evaluate_cache(model, data_source, batch_size, ctx):
      total_L = 0.0
      hidden = model.begin_state(
          batch_size=batch_size, func=mx.nd.zeros, ctx=ctx)
      next_word_history = None
      cache_history = None
      for i in range(0, len(data_source) - 1, bptt):
          if i > 0:
              print('Batch %d, ppl %f' % (i, math.exp(total_L / i)))
          if i == bptt:
              return total_L / i
          data, target = get_batch(data_source, i)
          data = data.as_in_context(ctx)
          target = target.as_in_context(ctx)
          L = 0
          outs, next_word_history, cache_history, hidden = model(
              data, target, next_word_history, cache_history, hidden)
          for out in outs:
              L += (-mx.nd.log(out)).asscalar()
          total_L += L / data.shape[1]
          hidden = detach(hidden)
      return total_L / len(data_source)
  \<close>
  The cache model is an object of the framework (its code is not part of the
  notebooks): its forward call takes the window, the targets, the two histories and
  the hidden state, and fails or returns the blended probabilities \<^verbatim>\<open>outs\<close>, the
  new histories and the new hidden state. \<^verbatim>\<open>data.shape[1]\<close>, the second dimension
  of the data source that slicing along the first axis keeps, is the parameter
  \<open>ncols\<close>. The line printed for \<open>i > 0\<close> changes no variable and is left out.
  A failure of a slice in \<open>get_batch\<close> ends the call like any other exception.
\<close>

text \<open>The cursors of \<^verbatim>\<open>range(start, stop, step)\<close> for a step other than 0.\<close>

function py_range :: "int \<Rightarrow> int \<Rightarrow> int \<Rightarrow> int list" where
  "py_range start stop step =
     (if 0 < step \<and> start < stop then start # py_range (start + step) stop step
      else if step < 0 \<and> stop < start then start # py_range (start + step) stop step
      else [])"
  by pat_completeness auto
termination
  by (relation "measure (\<lambda>(start, stop, step).
        nat (if 0 < step then stop - start else start - stop))") auto

record ('a, 'n, 'c, 'h, 'e) cache_model =
  cm_begin_state :: "int \<Rightarrow> 'h hidden"
  cm_call :: "'a list \<Rightarrow> 'a list \<Rightarrow> 'n option \<Rightarrow> 'c option \<Rightarrow> 'h hidden \<Rightarrow>
              'e + (real list \<times> 'n option \<times> 'c option \<times> 'h hidden)"

record ('n, 'c, 'h) cache_state =
  total_L :: real
  next_word_history :: "'n option"
  cache_history :: "'c option"
  hidden :: "'h hidden"

text \<open>The inner loop: \<^verbatim>\<open>L = 0\<close>, then \<^verbatim>\<open>L += -log(out)\<close> for every \<^verbatim>\<open>out\<close>.\<close>

definition chunk_loss :: "real list \<Rightarrow> real" where
  "chunk_loss outs = fold (\<lambda>out L. L + (- ln out)) outs 0"

text \<open>One pass through the loop body for a cursor that does not return.\<close>

definition cache_body ::
  "('h \<Rightarrow> 'h) \<Rightarrow> ('a, 'n, 'c, 'h, 'e) cache_model \<Rightarrow> nat \<Rightarrow> int \<Rightarrow> 'a list \<Rightarrow> int \<Rightarrow>
   ('n, 'c, 'h) cache_state \<Rightarrow> 'e py_error + ('n, 'c, 'h) cache_state" where
  "cache_body leaf_detach model ncols bptt data_source i st =
     (case get_batch bptt data_source i None of
        Inl err \<Rightarrow> Inl (ArrayError err)
      | Inr (data, target) \<Rightarrow>
          (case cm_call model data target
                  (next_word_history st) (cache_history st) (hidden st) of
             Inl e \<Rightarrow> Inl (ModelFailure e)
           | Inr (outs, nwh, ch, h) \<Rightarrow>
               Inr \<lparr>total_L = total_L st + chunk_loss outs / real ncols,
                    next_word_history = nwh,
                    cache_history = ch,
                    hidden = detach leaf_detach h\<rparr>))"

text \<open>\<^verbatim>\<open>return total_L / i\<close> and \<^verbatim>\<open>return total_L / len(data_source)\<close>.\<close>

definition early_loss :: "int \<Rightarrow> ('n, 'c, 'h) cache_state \<Rightarrow> 'e py_error + real" where
  "early_loss i st =
     (if i = 0 then Inl ZeroDivisionError else Inr (total_L st / real_of_int i))"

definition final_loss :: "'a list \<Rightarrow> ('n, 'c, 'h) cache_state \<Rightarrow> 'e py_error + real" where
  "final_loss data_source st =
     (if length data_source = 0 then Inl ZeroDivisionError
      else Inr (total_L st / real (length data_source)))"

fun cache_loop ::
  "('h \<Rightarrow> 'h) \<Rightarrow> ('a, 'n, 'c, 'h, 'e) cache_model \<Rightarrow> nat \<Rightarrow> int \<Rightarrow> 'a list \<Rightarrow> int list \<Rightarrow>
   ('n, 'c, 'h) cache_state \<Rightarrow> 'e py_error + real" where
  "cache_loop leaf_detach model ncols bptt data_source [] st = final_loss data_source st"
| "cache_loop leaf_detach model ncols bptt data_source (i # cursors) st =
     (if i = bptt then early_loss i st
      else (case cache_body leaf_detach model ncols bptt data_source i st of
              Inl err \<Rightarrow> Inl err
            | Inr st' \<Rightarrow> cache_loop leaf_detach model ncols bptt data_source cursors st'))"

definition cache_init :: "('a, 'n, 'c, 'h, 'e) cache_model \<Rightarrow> int \<Rightarrow> ('n, 'c, 'h) cache_state" where
  "cache_init model batch_size =
     \<lparr>total_L = 0, next_word_history = None, cache_history = None,
      hidden = cm_begin_state model batch_size\<rparr>"

definition evaluate_cache ::
  "('h \<Rightarrow> 'h) \<Rightarrow> ('a, 'n, 'c, 'h, 'e) cache_model \<Rightarrow> 'a list \<Rightarrow> int \<Rightarrow> nat \<Rightarrow> int \<Rightarrow>
   'e py_error + real" where
  "evaluate_cache leaf_detach model data_source batch_size ncols bptt =
     (if bptt = 0 then Inl ValueError
      else cache_loop leaf_detach model ncols bptt data_source
             (py_range 0 (int (length data_source) - 1) bptt)
             (cache_init model batch_size))"

section \<open>The cache evaluation over a model given as a relation\<close>

text \<open>
  To speak about determinism the forward call is also taken as a relation between
  its arguments and its outcomes, which a randomised model would relate to several
  outcomes. The rules follow the loop of \<^verbatim>\<open>evaluate_cache\<close> branch by branch; a run
  also yields the probabilities \<^verbatim>\<open>out\<close> that the inner loop read, in order.
\<close>

type_synonym ('a, 'n, 'c, 'h, 'e) forward_rel =
  "'a list \<Rightarrow> 'a list \<Rightarrow> 'n option \<Rightarrow> 'c option \<Rightarrow> 'h hidden \<Rightarrow>
   'e + (real list \<times> 'n option \<times> 'c option \<times> 'h hidden) \<Rightarrow> bool"

inductive cache_run ::
  "('h \<Rightarrow> 'h) \<Rightarrow> ('a, 'n, 'c, 'h, 'e) forward_rel \<Rightarrow> nat \<Rightarrow> int \<Rightarrow> 'a list \<Rightarrow> int list \<Rightarrow>
   ('n, 'c, 'h) cache_state \<Rightarrow> real list \<Rightarrow> 'e py_error + real \<Rightarrow> bool"
  for leaf_detach :: "'h \<Rightarrow> 'h" and forward :: "('a, 'n, 'c, 'h, 'e) forward_rel"
    and ncols :: nat and bptt :: int and data_source :: "'a list" where
  run_exhausted:
    "cache_run leaf_detach forward ncols bptt data_source [] st [] (final_loss data_source st)"
| run_return:
    "i = bptt \<Longrightarrow>
     cache_run leaf_detach forward ncols bptt data_source (i # cursors) st [] (early_loss i st)"
| run_slice_failure:
    "i \<noteq> bptt \<Longrightarrow>
     get_batch bptt data_source i None = Inl err \<Longrightarrow>
     cache_run leaf_detach forward ncols bptt data_source (i # cursors) st []
       (Inl (ArrayError err))"
| run_failure:
    "i \<noteq> bptt \<Longrightarrow>
     get_batch bptt data_source i None = Inr (data, target) \<Longrightarrow>
     forward data target (next_word_history st) (cache_history st) (hidden st) (Inl e) \<Longrightarrow>
     cache_run leaf_detach forward ncols bptt data_source (i # cursors) st []
       (Inl (ModelFailure e))"
| run_chunk:
    "i \<noteq> bptt \<Longrightarrow>
     get_batch bptt data_source i None = Inr (data, target) \<Longrightarrow>
     forward data target (next_word_history st) (cache_history st) (hidden st)
       (Inr (outs, nwh, ch, h)) \<Longrightarrow>
     cache_run leaf_detach forward ncols bptt data_source cursors
       \<lparr>total_L = total_L st + chunk_loss outs / real ncols,
        next_word_history = nwh,
        cache_history = ch,
        hidden = detach leaf_detach h\<rparr> probs res \<Longrightarrow>
     cache_run leaf_detach forward ncols bptt data_source (i # cursors) st (outs @ probs) res"

text \<open>
  A whole call: the histories start as \<^verbatim>\<open>None\<close>, the hidden state as the model's
  begin state, the cursors are those of the \<^verbatim>\<open>range\<close>.
\<close>

definition evaluate_cache_run ::
  "('h \<Rightarrow> 'h) \<Rightarrow> (int \<Rightarrow> 'h hidden) \<Rightarrow> ('a, 'n, 'c, 'h, 'e) forward_rel \<Rightarrow> 'a list \<Rightarrow> int \<Rightarrow>
   nat \<Rightarrow> int \<Rightarrow> real list \<Rightarrow> 'e py_error + real \<Rightarrow> bool" where
  "evaluate_cache_run leaf_detach begin_state forward data_source batch_size ncols bptt probs res =
     (if bptt = 0 then probs = [] \<and> res = Inl ValueError
      else cache_run leaf_detach forward ncols bptt data_source
             (py_range 0 (int (length data_source) - 1) bptt)
             \<lparr>total_L = 0, next_word_history = None, cache_history = None,
              hidden = begin_state batch_size\<rparr> probs res)"

text \<open>A forward relation is deterministic when equal arguments have one outcome.\<close>

definition deterministic :: "('a, 'n, 'c, 'h, 'e) forward_rel \<Rightarrow> bool" where
  "deterministic forward =
     (\<forall>data target nwh ch h r1 r2.
        forward data target nwh ch h r1 \<longrightarrow> forward data target nwh ch h r2 \<longrightarrow> r1 = r2)"

text \<open>The relation of a model whose forward call is a function.\<close>

definition forward_of :: "('a, 'n, 'c, 'h, 'e) cache_model \<Rightarrow> ('a, 'n, 'c, 'h, 'e) forward_rel" where
  "forward_of model data target nwh ch h r = (cm_call model data target nwh ch h = r)"

section \<open>The cache scorer\<close>

text \<open>
  Modelled from the spec: the blending of the model's softmax with the cache
  distribution is computed inside the framework's cache cell, which the notebooks
  only call; its code is not in the repository. The definitions below follow
  section 4.3 of the specification. A cache entry is a hidden-state vector with the
  token observed next; the history has the oldest entry first. For the step with
  hidden state \<open>h_t\<close>, each of the most recent \<open>window\<close> entries \<open>(h_i, tok_i)\<close> scores
  \<open>exp (theta * dot h_t h_i)\<close>; the scores are normalised, and the cache probability
  of a token is the sum of the normalised scores of the entries with that token.
  With an empty history the cache distribution has zero mass and nothing is
  divided. The blended probability is
  \<open>(1 - lambda_mix) * p_model y + lambda_mix * p_cache y\<close>.
\<close>

record cache_config =
  window :: nat
  theta :: real
  lambda_mix :: real
  cache_capacity :: nat

type_synonym cache_entry = "real list \<times> nat"

definition dot :: "real list \<Rightarrow> real list \<Rightarrow> real" where
  "dot u v = sum_list (map2 (*) u v)"

definition recent_entries :: "cache_config \<Rightarrow> cache_entry list \<Rightarrow> cache_entry list" where
  "recent_entries cfg history = drop (length history - window cfg) history"

definition similarity :: "cache_config \<Rightarrow> real list \<Rightarrow> cache_entry \<Rightarrow> real" where
  "similarity cfg h_t entry = exp (theta cfg * dot h_t (fst entry))"

definition p_cache :: "cache_config \<Rightarrow> cache_entry list \<Rightarrow> real list \<Rightarrow> nat \<Rightarrow> 'e py_error + real" where
  "p_cache cfg history h_t y =
     (let entries = recent_entries cfg history;
          z = sum_list (map (similarity cfg h_t) entries)
      in if entries = [] then Inr 0
         else if z = 0 then Inl ZeroDivisionError
         else Inr (sum_list (map (similarity cfg h_t)
                     (filter (\<lambda>entry. snd entry = y) entries)) / z))"

definition p_blend ::
  "cache_config \<Rightarrow> cache_entry list \<Rightarrow> real list \<Rightarrow> (nat \<Rightarrow> real) \<Rightarrow> nat \<Rightarrow> 'e py_error + real" where
  "p_blend cfg history h_t p_model y =
     (case p_cache cfg history h_t y of
        Inl err \<Rightarrow> Inl err
      | Inr pc \<Rightarrow> Inr ((1 - lambda_mix cfg) * p_model y + lambda_mix cfg * pc))"

section \<open>Example models\<close>

text \<open>
  Two small deterministic models on which the theorems below are instantiated.
  Tokens are natural numbers; either model fails on a window that holds the token
  \<open>0\<close>. The cache model answers the probability \<open>1 / (2 + t)\<close> for the target \<open>t\<close>.
\<close>

definition example_cache_model :: "(nat, nat, nat, nat, string) cache_model" where
  "example_cache_model =
     \<lparr>cm_begin_state = (\<lambda>batch_size. PyList [Leaf 0]),
      cm_call = (\<lambda>data target nwh ch h.
        if 0 \<in> set data then Inl ''unknown token''
        else Inr (map (\<lambda>t. 1 / (2 + real t)) target,
                  Some (length target), Some (length data), h))\<rparr>"

definition example_language_model :: "(nat list, nat list, nat, string) language_model" where
  "example_language_model =
     \<lparr>lm_begin_state = (\<lambda>batch_size. PyTuple [Leaf 0, Leaf 0]),
      lm_call = (\<lambda>data h.
        if 0 \<in> set data then Inl ''unknown token'' else Inr (data, h))\<rparr>"

definition example_loss :: "nat list \<Rightarrow> nat list \<Rightarrow> real list" where
  "example_loss output target = map real output"

section \<open>Properties of \<open>get_batch\<close>\<close>

lemma py_slice_in_range:
  assumes "0 \<le> a" and "a \<le> b" and "b \<le> int (length xs)"
  shows "py_slice xs a b = Inr (take (nat (b - a)) (drop (nat a) xs))"
  using assms by (simp add: py_slice_def slice_bound_def Let_def min_def)

lemma get_batch_in_range:
  assumes "0 \<le> i" and "i \<le> int (length ds) - 2" and "1 \<le> window_size bptt sl"
  shows "get_batch bptt ds i sl =
           Inr (take (nat (min (window_size bptt sl) (int (length ds) - 1 - i))) (drop (nat i) ds),
                take (nat (min (window_size bptt sl) (int (length ds) - 1 - i))) (drop (nat i + 1) ds))"
proof -
  define s where "s = min (window_size bptt sl) (int (length ds) - 1 - i)"
  have s1: "1 \<le> s" and s2: "i + s \<le> int (length ds) - 1"
    using assms by (simp_all add: s_def)
  have d: "py_slice ds i (i + s) = Inr (take (nat s) (drop (nat i) ds))"
    using py_slice_in_range [of i "i + s" ds] assms(1) s1 s2 by simp
  have t: "py_slice ds (i + 1) (i + 1 + s) = Inr (take (nat s) (drop (nat i + 1) ds))"
    using py_slice_in_range [of "i + 1" "i + 1 + s" ds] assms(1) s1 s2
    by (simp add: nat_add_distrib)
  show ?thesis
    unfolding get_batch_def Let_def s_def [symmetric] using d t by simp
qed

text \<open>
  Claim C1. For a cursor \<open>0 \<le> i \<le> len(data_source) - 2\<close> and a caller-supplied
  window \<open>w \<ge> 1\<close>, \<open>get_batch\<close> returns (it does not fail), and both lists it
  returns have exactly \<open>min(w, len(data_source) - 1 - i)\<close> elements. So neither
  exceeds \<open>w\<close>; when \<open>i + w < len(data_source) - 1\<close> the window has exactly \<open>w\<close> steps,
  and at the last valid cursor \<open>i = len(data_source) - 2\<close> it has exactly one.
\<close>

theorem get_batch_window_length:
  assumes "0 \<le> i" and "i \<le> int (length ds) - 2" and "1 \<le> w"
  shows "\<exists>data target.
           get_batch bptt ds i (Some w) = Inr (data, target)
         \<and> length data = nat (min w (int (length ds) - 1 - i))
         \<and> length target = nat (min w (int (length ds) - 1 - i))
         \<and> int (length data) \<le> w
         \<and> int (length target) \<le> w
         \<and> (i + w < int (length ds) - 1 \<longrightarrow>
              int (length data) = w \<and> int (length target) = w)
         \<and> (i = int (length ds) - 2 \<longrightarrow>
              length data = 1 \<and> length target = 1)"
proof -
  let ?n = "nat (min w (int (length ds) - 1 - i))"
  let ?data = "take ?n (drop (nat i) ds)"
  let ?target = "take ?n (drop (nat i + 1) ds)"
  have ws: "window_size bptt (Some w) = w"
    using assms(3) by (simp add: window_size_def)
  have gb: "get_batch bptt ds i (Some w) = Inr (?data, ?target)"
    using get_batch_in_range [of i ds bptt "Some w"] assms ws by simp
  have l1: "length ?data = ?n"
    using assms by simp
  have l2: "length ?target = ?n"
    using assms by simp
  have "length ?data = ?n
         \<and> length ?target = ?n
         \<and> int (length ?data) \<le> w
         \<and> int (length ?target) \<le> w
         \<and> (i + w < int (length ds) - 1 \<longrightarrow>
              int (length ?data) = w \<and> int (length ?target) = w)
         \<and> (i = int (length ds) - 2 \<longrightarrow>
              length ?data = 1 \<and> length ?target = 1)"
    unfolding l1 l2 using assms by auto
  then show ?thesis using gb by blast
qed

theorem get_batch_window_length_witness:
  "(0::int) \<le> 1 \<and> (1::int) \<le> int (length [10, 11, 12, 13, 14 :: nat]) - 2 \<and> (1::int) \<le> 2
   \<and> get_batch 2000 [10, 11, 12, 13, 14 :: nat] 1 (Some 2) = Inr ([11, 12], [12, 13])
   \<and> length [11, 12 :: nat] = 2 \<and> length [12, 13 :: nat] = 2"
  using get_batch_window_length [of 1 "[10, 11, 12, 13, 14 :: nat]" 2 2000]
  by (simp add: get_batch_def py_slice_def slice_bound_def window_size_def)

text \<open>
  Claim C2. For a valid window (cursor \<open>0 \<le> i \<le> len(data_source) - 2\<close>, chosen
  window size at least 1, whether supplied or defaulted) \<open>get_batch\<close> returns, and
  the target is the stream from position \<open>i + 1\<close> on, of the same length as the
  data: \<open>target[t]\<close> is \<open>data[t + 1]\<close> wherever both exist, and the last target is the
  stream token right after the last data token.
\<close>

theorem get_batch_target_shifted:
  assumes "0 \<le> i" and "i \<le> int (length ds) - 2" and "1 \<le> window_size bptt sl"
  shows "\<exists>data target.
           get_batch bptt ds i sl = Inr (data, target)
         \<and> target = take (nat (min (window_size bptt sl) (int (length ds) - 1 - i)))
                      (drop (nat i + 1) ds)
         \<and> length target = length data
         \<and> (\<forall>t. t + 1 < length data \<longrightarrow> target ! t = data ! (t + 1))
         \<and> last data = ds ! (nat i + length data - 1)
         \<and> last target = ds ! (nat i + length data)"
proof -
  define n where "n = nat (min (window_size bptt sl) (int (length ds) - 1 - i))"
  define data where "data = take n (drop (nat i) ds)"
  define target where "target = take n (drop (nat i + 1) ds)"
  have n1: "1 \<le> n" and n2: "nat i + n + 1 \<le> length ds"
    using assms by (simp_all add: n_def)
  have gb: "get_batch bptt ds i sl = Inr (data, target)"
    using get_batch_in_range [OF assms] by (simp add: n_def data_def target_def)
  have ld: "length data = n" and lt: "length target = n"
    using n2 by (simp_all add: data_def target_def)
  have shift: "\<forall>t. t + 1 < length data \<longrightarrow> target ! t = data ! (t + 1)"
    using n2 by (simp add: ld) (simp add: data_def target_def add.commute add.left_commute)
  have "data \<noteq> []" using ld n1 by auto
  then have "last data = data ! (n - 1)"
    by (simp add: last_conv_nth ld)
  also have "\<dots> = ds ! (nat i + n - 1)"
    using n1 n2 by (simp add: data_def)
  finally have lastd: "last data = ds ! (nat i + length data - 1)"
    by (simp add: ld)
  have "target \<noteq> []" using lt n1 by auto
  then have "last target = target ! (n - 1)"
    by (simp add: last_conv_nth lt)
  also have "\<dots> = ds ! (nat i + n)"
    using n1 n2 by (simp add: target_def)
  finally have lastt: "last target = ds ! (nat i + length data)"
    by (simp add: ld)
  have "target = take (nat (min (window_size bptt sl) (int (length ds) - 1 - i)))
                   (drop (nat i + 1) ds)"
    by (simp add: target_def n_def)
  then show ?thesis
    using gb ld lt shift lastd lastt by (intro exI [of _ data] exI [of _ target]) simp
qed

theorem get_batch_target_shifted_witness:
  "(0::int) \<le> 1 \<and> (1::int) \<le> int (length [10, 11, 12, 13, 14 :: nat]) - 2
   \<and> 1 \<le> window_size 2000 (Some 2)
   \<and> get_batch 2000 [10, 11, 12, 13, 14 :: nat] 1 (Some 2) = Inr ([11, 12], [12, 13])
   \<and> [12, 13 :: nat] = take 2 (drop 2 [10, 11, 12, 13, 14])
   \<and> [12, 13 :: nat] ! 0 = [11, 12] ! 1
   \<and> last [12, 13 :: nat] = [10, 11, 12, 13, 14] ! 3"
  using get_batch_target_shifted [of 1 "[10, 11, 12, 13, 14 :: nat]" 2000 "Some 2"]
  by (simp add: get_batch_def py_slice_def slice_bound_def window_size_def)




text \<open>
  Claim C9. A call with \<^verbatim>\<open>seq_len=0\<close> returns what the call without
  \<^verbatim>\<open>seq_len\<close> returns, for every data source, cursor and global; for a valid
  cursor and a global \<open>bptt \<ge> 1\<close> that is the window of
  \<open>min(bptt, len(data_source) - 1 - i)\<close> steps, not an empty one.
\<close>

theorem get_batch_zero_seq_len:
  "get_batch bptt ds i (Some 0) = get_batch bptt ds i None
   \<and> (0 \<le> i \<and> i \<le> int (length ds) - 2 \<and> 1 \<le> bptt \<longrightarrow>
        (\<exists>data target.
           get_batch bptt ds i (Some 0) = Inr (data, target)
         \<and> length data = nat (min bptt (int (length ds) - 1 - i))
         \<and> length target = nat (min bptt (int (length ds) - 1 - i))
         \<and> data \<noteq> []))"
proof -
  have ws: "window_size bptt (Some 0) = bptt" "window_size bptt None = bptt"
    by (simp_all add: window_size_def)
  have same: "get_batch bptt ds i (Some 0) = get_batch bptt ds i None"
    by (simp add: get_batch_def ws)
  have valid: "\<exists>data target.
           get_batch bptt ds i (Some 0) = Inr (data, target)
         \<and> length data = nat (min bptt (int (length ds) - 1 - i))
         \<and> length target = nat (min bptt (int (length ds) - 1 - i))
         \<and> data \<noteq> []"
    if v: "0 \<le> i" "i \<le> int (length ds) - 2" "1 \<le> bptt"
  proof -
    let ?n = "nat (min bptt (int (length ds) - 1 - i))"
    let ?data = "take ?n (drop (nat i) ds)"
    let ?target = "take ?n (drop (nat i + 1) ds)"
    have gb: "get_batch bptt ds i (Some 0) = Inr (?data, ?target)"
      using get_batch_in_range [of i ds bptt "Some 0"] v ws by simp
    have l1: "length ?data = ?n"
      using v by simp
    have l2: "length ?target = ?n"
      using v by simp
    have ne: "?data \<noteq> []"
    proof
      assume "?data = []"
      then have "length ?data = 0" by (simp only: list.size)
      then have "?n = 0" using l1 by simp
      then show False using v by simp
    qed
    show ?thesis using gb l1 l2 ne by blast
  qed
  show ?thesis using same valid by blast
qed

theorem get_batch_zero_seq_len_witness:
  "(0::int) \<le> 1 \<and> (1::int) \<le> int (length [10, 11, 12, 13, 14 :: nat]) - 2 \<and> (1::int) \<le> 2
   \<and> get_batch 2 [10, 11, 12, 13, 14 :: nat] 1 (Some 0) = get_batch 2 [10, 11, 12, 13, 14] 1 None
   \<and> get_batch 2 [10, 11, 12, 13, 14 :: nat] 1 (Some 0) = Inr ([11, 12], [12, 13])
   \<and> length [11, 12 :: nat] = 2"
  using get_batch_zero_seq_len [of 2 "[10, 11, 12, 13, 14 :: nat]" 1]
  by (simp add: get_batch_def py_slice_def slice_bound_def window_size_def)

section \<open>Properties of \<open>detach\<close>\<close>

lemma leaves_detach: "leaves (detach d h) = map d (leaves h)"
  by (induction d h rule: detach.induct) (simp_all add: map_concat comp_def cong: map_cong)

lemma depth_detach: "depth (detach d h) = depth h"
  by (induction d h rule: detach.induct) (simp_all add: comp_def cong: map_cong)

lemma shape_of_detach: "shape_of (detach d h) = shape_of h"
  by (induction d h rule: detach.induct) (simp_all add: comp_def cong: map_cong)

lemma only_lists_detach: "only_lists (detach d h)"
  by (induction d h rule: detach.induct) (simp_all add: list_all_iff)

text \<open>
  Claim C10. \<open>detach\<close> keeps the shape of the hidden state (so the number of
  children of every node) and its depth, maps the leaf operation over the leaves in
  their left-to-right order (each leaf once), and its result has no tuple node:
  a tuple node and a list node both become a list node of the detached children.
\<close>

theorem detach_preserves_structure:
  "shape_of (detach d h) = shape_of h
   \<and> depth (detach d h) = depth h
   \<and> leaves (detach d h) = map d (leaves h)
   \<and> only_lists (detach d h)
   \<and> detach d (PyTuple hs) = PyList (map (detach d) hs)
   \<and> detach d (PyList hs) = PyList (map (detach d) hs)"
  by (simp add: leaves_detach depth_detach shape_of_detach only_lists_detach)

theorem detach_preserves_structure_witness:
  "detach (\<lambda>x. x + 1) (PyTuple [Leaf (1::nat), PyTuple [Leaf 2, Leaf 3], PyList []])
     = PyList [Leaf 2, PyList [Leaf 3, Leaf 4], PyList []]
   \<and> leaves (detach (\<lambda>x. x + 1) (PyTuple [Leaf (1::nat), PyTuple [Leaf 2, Leaf 3], PyList []]))
     = [2, 3, 4]
   \<and> depth (detach (\<lambda>x. x + 1) (PyTuple [Leaf (1::nat), PyTuple [Leaf 2, Leaf 3], PyList []])) = 2
   \<and> only_lists (detach (\<lambda>x. x + 1) (PyTuple [Leaf (1::nat), PyTuple [Leaf 2, Leaf 3], PyList []]))"
  using detach_preserves_structure
          [of "\<lambda>x. x + 1" "PyTuple [Leaf (1::nat), PyTuple [Leaf 2, Leaf 3], PyList []]" "[]"]
  by simp

section \<open>Properties of the cache evaluation loop\<close>

declare py_range.simps [simp del]

lemma py_range_first:
  assumes "0 < step" and "start < stop"
  shows "py_range start stop step = start # py_range (start + step) stop step"
  using assms by (subst py_range.simps) simp

lemma py_range_first_two:
  assumes "1 \<le> bptt" and "bptt < stop"
  shows "py_range 0 stop bptt = 0 # bptt # py_range (bptt + bptt) stop bptt"
  using assms py_range_first [of bptt 0 stop] py_range_first [of bptt bptt stop] by simp

lemma first_window:
  assumes "1 \<le> bptt" and "bptt + 1 < int (length ds)"
  shows "get_batch bptt ds 0 None = Inr (take (nat bptt) ds, take (nat bptt) (drop 1 ds))"
proof -
  have "window_size bptt None = bptt" by (simp add: window_size_def)
  moreover have "min bptt (int (length ds) - 1 - 0) = bptt" using assms by simp
  ultimately show ?thesis
    using get_batch_in_range [of 0 ds bptt None] assms by simp
qed

lemma evaluate_cache_first_window:
  assumes "1 \<le> bptt" and "bptt + 1 < int (length ds)"
  shows "evaluate_cache ld model ds batch_size ncols bptt =
          (case cm_call model (take (nat bptt) ds) (take (nat bptt) (drop 1 ds)) None None
                  (cm_begin_state model batch_size) of
             Inl e \<Rightarrow> Inl (ModelFailure e)
           | Inr (outs, nwh, ch, h) \<Rightarrow> Inr ((chunk_loss outs / real ncols) / real_of_int bptt))"
proof -
  let ?init = "cache_init model batch_size"
  let ?rest = "py_range (bptt + bptt) (int (length ds) - 1) bptt"
  have cursors: "py_range 0 (int (length ds) - 1) bptt = 0 # bptt # ?rest"
    using assms by (intro py_range_first_two) simp_all
  have ev: "evaluate_cache ld model ds batch_size ncols bptt =
              cache_loop ld model ncols bptt ds (0 # bptt # ?rest) ?init"
    using assms(1) by (simp add: evaluate_cache_def cursors)
  have loop: "cache_loop ld model ncols bptt ds (0 # bptt # ?rest) ?init =
          (case cache_body ld model ncols bptt ds 0 ?init of
             Inl err \<Rightarrow> Inl err
           | Inr st' \<Rightarrow> early_loss bptt st')"
    using assms(1) by (simp split: sum.split)
  have body: "cache_body ld model ncols bptt ds 0 ?init =
          (case cm_call model (take (nat bptt) ds) (take (nat bptt) (drop 1 ds)) None None
                  (cm_begin_state model batch_size) of
             Inl e \<Rightarrow> Inl (ModelFailure e)
           | Inr (outs, nwh, ch, h) \<Rightarrow>
               Inr \<lparr>total_L = 0 + chunk_loss outs / real ncols, next_word_history = nwh,
                    cache_history = ch, hidden = detach ld h\<rparr>)"
    by (simp add: cache_body_def first_window [OF assms] cache_init_def
          split: sum.split prod.split)
  show ?thesis
    unfolding ev loop body using assms(1)
    by (simp add: early_loss_def split: sum.split prod.split)
qed

lemma take_drop_one: "take n (drop 1 xs) = drop 1 (take (Suc n) xs)"
  by (simp add: drop_take)

lemma evaluate_cache_prefix:
  assumes "1 \<le> bptt" and "bptt + 1 < int (length ds)" and "bptt + 1 < int (length ds')"
    and "take (nat bptt + 1) ds' = take (nat bptt + 1) ds"
  shows "evaluate_cache ld model ds' batch_size ncols bptt =
         evaluate_cache ld model ds batch_size ncols bptt"
proof -
  have "take (nat bptt) (take (nat bptt + 1) ds') = take (nat bptt) (take (nat bptt + 1) ds)"
    using assms(4) by simp
  then have d: "take (nat bptt) ds' = take (nat bptt) ds"
    by simp
  have "drop 1 (take (Suc (nat bptt)) ds') = drop 1 (take (Suc (nat bptt)) ds)"
    using assms(4) by simp
  then have t: "take (nat bptt) (drop 1 ds') = take (nat bptt) (drop 1 ds)"
    by (simp only: take_drop_one)
  show ?thesis
    unfolding evaluate_cache_first_window [OF assms(1,2)]
      evaluate_cache_first_window [OF assms(1,3)] d t ..
qed

text \<open>
  Claim C3. When the data source has more than \<open>bptt + 1\<close> elements (and
  \<open>bptt \<ge> 1\<close>), \<open>evaluate_cache\<close> calls the model on the first window of \<open>bptt\<close>
  steps only and returns at the cursor \<open>bptt\<close>: the result is that window's loss
  divided by \<open>bptt\<close> (or the model's failure on that window). The data source beyond
  its first \<open>bptt + 1\<close> elements has no influence on the result. No argument of the
  function controls this.
\<close>

theorem evaluate_cache_short_circuit:
  assumes "1 \<le> bptt" and "bptt + 1 < int (length ds)"
  shows "evaluate_cache ld model ds batch_size ncols bptt =
          (case cm_call model (take (nat bptt) ds) (take (nat bptt) (drop 1 ds)) None None
                  (cm_begin_state model batch_size) of
             Inl e \<Rightarrow> Inl (ModelFailure e)
           | Inr (outs, nwh, ch, h) \<Rightarrow> Inr ((chunk_loss outs / real ncols) / real_of_int bptt))
       \<and> (\<forall>ds'. bptt + 1 < int (length ds') \<and> take (nat bptt + 1) ds' = take (nat bptt + 1) ds
            \<longrightarrow> evaluate_cache ld model ds' batch_size ncols bptt =
                evaluate_cache ld model ds batch_size ncols bptt)"
  using evaluate_cache_first_window [OF assms] evaluate_cache_prefix [OF assms]
  by blast

theorem evaluate_cache_short_circuit_witness:
  "(1::int) \<le> 2 \<and> (2::int) + 1 < int (length [10, 11, 12, 13, 14 :: nat])
   \<and> evaluate_cache id example_cache_model [10, 11, 12, 13, 14] 1 1 2
       = Inr (chunk_loss [1 / 13, 1 / 14] / real (1::nat) / real_of_int 2)"
  using evaluate_cache_short_circuit [of 2 "[10, 11, 12, 13, 14 :: nat]" id example_cache_model 1 1]
  by (simp add: example_cache_model_def)

lemma fold_chunk_loss:
  "fold (\<lambda>out L. L + (- ln out)) outs acc = acc + (\<Sum>out\<leftarrow>outs. - ln (out::real))"
  by (induction outs arbitrary: acc) simp_all

lemma chunk_loss_sum: "chunk_loss outs = (\<Sum>out\<leftarrow>outs. - ln out)"
  unfolding chunk_loss_def fold_chunk_loss by simp

lemma neg_ln_sum_nonneg:
  "\<forall>out\<in>set outs. 0 < out \<and> out < 1 \<Longrightarrow> 0 \<le> (\<Sum>out\<leftarrow>outs. - ln (out::real))"
proof (induction outs)
  case Nil
  show ?case by simp
next
  case (Cons a outs)
  have "0 < a" and "a < 1" using Cons.prems by simp_all
  then have "ln a \<le> 0" by simp
  moreover have "0 \<le> (\<Sum>out\<leftarrow>outs. - ln out)"
    using Cons by simp
  ultimately show ?case by simp
qed

lemma chunk_loss_nonneg:
  assumes "\<forall>out\<in>set outs. 0 < out \<and> out < 1"
  shows "0 \<le> chunk_loss outs"
  unfolding chunk_loss_sum using assms by (rule neg_ln_sum_nonneg)

text \<open>
  Claim C6. In an iteration of the loop of \<open>evaluate_cache\<close> whose model call
  (on the window that \<open>get_batch\<close> returned) returns probabilities that all lie
  strictly between 0 and 1, the chunk's sum of negative logarithms is not negative,
  and the running total after the iteration is not below the running total before
  it.
\<close>

theorem cache_body_total_L_mono:
  assumes "get_batch bptt ds i None = Inr (data, target)"
    and "cm_call model data target
           (next_word_history st) (cache_history st) (hidden st) = Inr (outs, nwh, ch, h)"
    and "\<forall>out\<in>set outs. 0 < out \<and> out < 1"
  shows "0 \<le> chunk_loss outs
       \<and> cache_body ld model ncols bptt ds i st =
           Inr \<lparr>total_L = total_L st + chunk_loss outs / real ncols,
                next_word_history = nwh, cache_history = ch, hidden = detach ld h\<rparr>
       \<and> total_L st \<le> total_L st + chunk_loss outs / real ncols"
proof -
  have nn: "0 \<le> chunk_loss outs"
    using assms(3) by (rule chunk_loss_nonneg)
  have body: "cache_body ld model ncols bptt ds i st =
           Inr \<lparr>total_L = total_L st + chunk_loss outs / real ncols,
                next_word_history = nwh, cache_history = ch, hidden = detach ld h\<rparr>"
    using assms(1,2) by (simp add: cache_body_def)
  have "0 \<le> chunk_loss outs / real ncols"
    using nn by simp
  then show ?thesis using nn body by simp
qed

theorem cache_body_total_L_mono_witness:
  "get_batch 2 [10, 11, 12 :: nat] 0 None = Inr ([10, 11], [11, 12])
   \<and> cm_call example_cache_model [10, 11] [11, 12]
       (next_word_history (cache_init example_cache_model 1))
       (cache_history (cache_init example_cache_model 1))
       (hidden (cache_init example_cache_model 1))
     = Inr ([1 / 13, 1 / 14], Some 2, Some 2, PyList [Leaf 0])
   \<and> (0::real) < 1 / 13 \<and> (1::real) / 13 < 1 \<and> (0::real) < 1 / 14 \<and> (1::real) / 14 < 1
   \<and> 0 \<le> chunk_loss [1 / 13, 1 / 14]
   \<and> total_L (cache_init example_cache_model 1)
       \<le> total_L (cache_init example_cache_model 1) + chunk_loss [1 / 13, 1 / 14] / real (1::nat)"
  using cache_body_total_L_mono
          [of 2 "[10, 11, 12 :: nat]" 0 "[10, 11]" "[11, 12]" example_cache_model
              "cache_init example_cache_model 1"
              "[1 / 13, 1 / 14]" "Some 2" "Some 2" "PyList [Leaf 0]" id 1]
  by (simp add: example_cache_model_def cache_init_def get_batch_def py_slice_def
        slice_bound_def window_size_def)

section \<open>Failure of the model's forward call\<close>

lemma evaluate_loop_append:
  "evaluate_loop ld m loss (xs @ ys) st =
     (case evaluate_loop ld m loss xs st of
        Inl err \<Rightarrow> Inl err
      | Inr st' \<Rightarrow> evaluate_loop ld m loss ys st')"
  by (induction ld m loss xs st rule: evaluate_loop.induct)
     (simp_all add: Let_def split: sum.split prod.split)

lemma evaluate_loop_fails_at:
  assumes "k < length ds"
    and "evaluate_loop ld m loss (take k ds) st0 = Inr st"
    and "lm_call m (fst (ds ! k)) (es_hidden st) = Inl e"
  shows "evaluate_loop ld m loss ds st0 = Inl (ModelFailure e)"
proof -
  have split: "ds = take k ds @ ds ! k # drop (Suc k) ds"
    using assms(1) by (simp add: id_take_nth_drop)
  obtain data target where dk: "ds ! k = (data, target)"
    by (cases "ds ! k")
  have "evaluate_loop ld m loss (ds ! k # drop (Suc k) ds) st = Inl (ModelFailure e)"
    using assms(3) by (simp add: dk)
  then have "evaluate_loop ld m loss (take k ds @ ds ! k # drop (Suc k) ds) st0 = Inl (ModelFailure e)"
    using assms(2) by (simp add: evaluate_loop_append)
  then show ?thesis using split by simp
qed

lemma evaluate_fails_at:
  assumes "k < length ds"
    and "evaluate_loop ld m loss (take k ds) (evaluate_init m batch_size) = Inr st"
    and "lm_call m (fst (ds ! k)) (es_hidden st) = Inl e"
  shows "evaluate ld m loss ds batch_size = Inl (ModelFailure e)"
  using evaluate_loop_fails_at [OF assms] by (simp add: evaluate_def)

lemma cache_loop_fails:
  assumes "i \<noteq> bptt"
    and "get_batch bptt ds i None = Inr (data, target)"
    and "cm_call model data target
           (next_word_history st) (cache_history st) (hidden st) = Inl e"
  shows "cache_loop ld model ncols bptt ds (i # cursors) st = Inl (ModelFailure e)"
  using assms by (simp add: cache_body_def)

lemma evaluate_cache_fails:
  assumes "1 \<le> bptt" and "2 \<le> length ds"
    and "get_batch bptt ds 0 None = Inr (data, target)"
    and "cm_call model data target None None (cm_begin_state model batch_size) = Inl e"
  shows "evaluate_cache ld model ds batch_size ncols bptt = Inl (ModelFailure e)"
proof -
  have "py_range 0 (int (length ds) - 1) bptt
          = 0 # py_range (0 + bptt) (int (length ds) - 1) bptt"
    using assms(1,2) by (intro py_range_first) simp_all
  moreover have "0 \<noteq> bptt" using assms(1) by simp
  ultimately show ?thesis
    using assms(1,3,4)
      cache_loop_fails [of 0 bptt ds data target model "cache_init model batch_size" e]
    by (simp add: evaluate_cache_def cache_init_def)
qed

text \<open>
  Claim C8. Neither loop intercepts a failure of the model's forward call. In
  \<open>evaluate\<close>: if the loop has run through the first \<open>k\<close> chunks and the call on
  chunk \<open>k\<close>, with the hidden state carried there, fails with \<open>e\<close>, the result is
  that failure and no loss. In the loop of \<open>evaluate_cache\<close>: if the call at a
  cursor that does not return, on the window that \<open>get_batch\<close> returned, fails
  with \<open>e\<close>, the result is that failure; in particular so for the whole function
  when the call on the first window fails (the only window the function ever
  passes to the model).
\<close>

theorem model_failure_propagates:
  "(k < length chunks
      \<and> evaluate_loop ld lm loss (take k chunks) (evaluate_init lm batch_size) = Inr est
      \<and> lm_call lm (fst (chunks ! k)) (es_hidden est) = Inl e
     \<longrightarrow> evaluate ld lm loss chunks batch_size = Inl (ModelFailure e))
   \<and> (i \<noteq> bptt
      \<and> get_batch bptt ds i None = Inr (data, target)
      \<and> cm_call cm data target
           (next_word_history cst) (cache_history cst) (hidden cst) = Inl e'
     \<longrightarrow> cache_loop ld' cm ncols bptt ds (i # cursors) cst = Inl (ModelFailure e'))
   \<and> (1 \<le> bptt \<and> 2 \<le> length ds
      \<and> get_batch bptt ds 0 None = Inr (fdata, ftarget)
      \<and> cm_call cm fdata ftarget None None (cm_begin_state cm batch_size') = Inl e'
     \<longrightarrow> evaluate_cache ld' cm ds batch_size' ncols bptt = Inl (ModelFailure e'))"
  using evaluate_fails_at [of k chunks ld lm loss batch_size est e]
    cache_loop_fails [of i bptt ds data target cm cst e' ld' ncols cursors]
    evaluate_cache_fails [of bptt ds fdata ftarget cm batch_size' e' ld' ncols]
  by blast

theorem model_failure_propagates_witness:
  "(1::nat) < length [([1, 2], [2, 3]), ([0, 5], [5, 6 :: nat])]
   \<and> evaluate_loop id example_language_model example_loss
        (take 1 [([1, 2], [2, 3]), ([0, 5], [5, 6 :: nat])])
        (evaluate_init example_language_model 20)
       = Inr \<lparr>es_total_L = 3, es_ntotal = 2, es_hidden = PyList [Leaf 0, Leaf 0]\<rparr>
   \<and> lm_call example_language_model (fst ([([1, 2], [2, 3]), ([0, 5], [5, 6 :: nat])] ! 1))
        (PyList [Leaf 0, Leaf 0]) = Inl ''unknown token''
   \<and> evaluate id example_language_model example_loss
        [([1, 2], [2, 3]), ([0, 5], [5, 6 :: nat])] 20 = Inl (ModelFailure ''unknown token'')
   \<and> (0::int) \<noteq> 2 \<and> (1::int) \<le> 2 \<and> 2 \<le> length [0, 11, 12 :: nat]
   \<and> get_batch 2 [0, 11, 12 :: nat] 0 None = Inr ([0, 11], [11, 12])
   \<and> cm_call example_cache_model [0, 11] [11, 12] None None
        (cm_begin_state example_cache_model 1) = Inl ''unknown token''
   \<and> cache_loop id example_cache_model 1 2 [0, 11, 12] [0] (cache_init example_cache_model 1)
       = Inl (ModelFailure ''unknown token'')
   \<and> evaluate_cache id example_cache_model [0, 11, 12] 1 1 2
       = Inl (ModelFailure ''unknown token'')"
  using model_failure_propagates
          [where k = 1 and chunks = "[([1, 2], [2, 3]), ([0, 5], [5, 6 :: nat])]"
             and ld = id and lm = example_language_model and loss = example_loss
             and batch_size = 20
             and est = "\<lparr>es_total_L = 3, es_ntotal = 2, es_hidden = PyList [Leaf 0, Leaf 0]\<rparr>"
             and e = "''unknown token''"
             and i = 0 and bptt = 2 and cm = example_cache_model and ds = "[0, 11, 12 :: nat]"
             and data = "[0, 11]" and target = "[11, 12]"
             and fdata = "[0, 11]" and ftarget = "[11, 12]"
             and cst = "cache_init example_cache_model 1" and e' = "''unknown token''"
             and ld' = id and ncols = 1 and cursors = "[]" and batch_size' = 1]
  by (simp add: example_language_model_def example_loss_def evaluate_init_def
        example_cache_model_def cache_init_def get_batch_def py_slice_def slice_bound_def
        window_size_def)

section \<open>Determinism of the cache evaluation\<close>

inductive_cases cache_run_NilE: "cache_run ld fw ncols bptt ds [] st probs res"
inductive_cases cache_run_ConsE: "cache_run ld fw ncols bptt ds (i # cursors) st probs res"

lemma cache_run_deterministic:
  assumes "deterministic fw"
    and "cache_run ld fw ncols bptt ds cursors st probs1 res1"
    and "cache_run ld fw ncols bptt ds cursors st probs2 res2"
  shows "probs1 = probs2 \<and> res1 = res2"
  using assms(2,3)
proof (induction arbitrary: probs2 res2 rule: cache_run.induct)
  case (run_exhausted st)
  then show ?case by (auto elim: cache_run_NilE)
next
  case (run_return i cursors st)
  then show ?case by (auto elim: cache_run_ConsE)
next
  case (run_slice_failure i err cursors st)
  from run_slice_failure.prems show ?case
  proof (cases rule: cache_run.cases)
    case (run_return)
    with run_slice_failure.hyps show ?thesis by simp
  next
    case (run_slice_failure err')
    with run_slice_failure.hyps show ?thesis by simp
  next
    case (run_failure data' target' e')
    with run_slice_failure.hyps show ?thesis by simp
  next
    case (run_chunk data' target' outs nwh ch h probs)
    with run_slice_failure.hyps show ?thesis by simp
  qed
next
  case (run_failure i data target st e cursors)
  from run_failure.prems show ?case
  proof (cases rule: cache_run.cases)
    case (run_return)
    with run_failure.hyps show ?thesis by simp
  next
    case (run_slice_failure err')
    with run_failure.hyps show ?thesis by simp
  next
    case (run_failure data' target' e')
    with run_failure.hyps assms(1) show ?thesis
      unfolding deterministic_def by (metis Inl_inject Inr_inject Pair_inject)
  next
    case (run_chunk data' target' outs nwh ch h probs)
    with run_failure.hyps assms(1) show ?thesis
      unfolding deterministic_def by (metis Inl_Inr_False Inr_inject Pair_inject)
  qed
next
  case (run_chunk i data target st outs nwh ch h cursors probs res)
  from run_chunk.prems show ?case
  proof (cases rule: cache_run.cases)
    case (run_return)
    with run_chunk.hyps show ?thesis by simp
  next
    case (run_slice_failure err')
    with run_chunk.hyps show ?thesis by simp
  next
    case (run_failure data' target' e')
    with run_chunk.hyps assms(1) show ?thesis
      unfolding deterministic_def by (metis Inl_Inr_False Inr_inject Pair_inject)
  next
    case inner: (run_chunk data' target' outs' nwh' ch' h' probs')
    have same: "data' = data" "target' = target"
      using run_chunk.hyps(2) inner(3) by simp_all
    have "Inr (outs, nwh, ch, h) = (Inr (outs', nwh', ch', h') :: 'e + _)"
      using run_chunk.hyps(3) inner(4) assms(1)
      unfolding deterministic_def same by blast
    then have eq: "outs' = outs" "nwh' = nwh" "ch' = ch" "h' = h" by simp_all
    have "probs = probs' \<and> res = res2"
      using run_chunk.IH inner(5) unfolding eq by blast
    then show ?thesis using inner(1) eq by simp
  qed
qed

lemma forward_of_deterministic: "deterministic (forward_of model)"
  by (simp add: deterministic_def forward_of_def)

lemma cache_run_forward_of:
  assumes "cache_run ld (forward_of model) ncols bptt ds cursors st probs res"
  shows "res = cache_loop ld model ncols bptt ds cursors st"
  using assms
proof (induction rule: cache_run.induct)
  case (run_chunk i data target st outs nwh ch h cursors probs res)
  then show ?case by (simp add: cache_body_def forward_of_def)
qed (simp_all add: cache_body_def forward_of_def)

lemma cache_run_exists:
  "\<exists>probs. cache_run ld (forward_of model) ncols bptt ds cursors st probs
             (cache_loop ld model ncols bptt ds cursors st)"
proof (induction cursors arbitrary: st)
  case Nil
  show ?case by (auto intro: cache_run.run_exhausted)
next
  case (Cons i cursors)
  show ?case
  proof (cases "i = bptt")
    case True
    then show ?thesis by (auto intro: cache_run.run_return)
  next
    case False
    show ?thesis
    proof (cases "get_batch bptt ds i None")
      case (Inl err)
      then have "cache_run ld (forward_of model) ncols bptt ds (i # cursors) st []
                   (Inl (ArrayError err))"
        using False by (intro cache_run.run_slice_failure)
      then show ?thesis using False Inl by (auto simp: cache_body_def)
    next
      case window: (Inr w)
      obtain data target where gb: "get_batch bptt ds i None = Inr (data, target)"
        using window by (cases w) simp
      show ?thesis
      proof (cases "cm_call model data target
                      (next_word_history st) (cache_history st) (hidden st)")
        case (Inl e)
        then have "cache_run ld (forward_of model) ncols bptt ds (i # cursors) st []
                     (Inl (ModelFailure e))"
          using False gb by (intro cache_run.run_failure) (simp_all add: forward_of_def)
        then show ?thesis using False gb Inl by (auto simp: cache_body_def)
      next
        case (Inr r)
        obtain outs nwh ch h where r: "r = (outs, nwh, ch, h)" by (cases r)
        let ?st' = "\<lparr>total_L = total_L st + chunk_loss outs / real ncols,
                      next_word_history = nwh, cache_history = ch, hidden = detach ld h\<rparr>"
        obtain probs where
          "cache_run ld (forward_of model) ncols bptt ds cursors ?st' probs
             (cache_loop ld model ncols bptt ds cursors ?st')"
          using Cons.IH by blast
        then have "cache_run ld (forward_of model) ncols bptt ds (i # cursors) st (outs @ probs)
                     (cache_loop ld model ncols bptt ds cursors ?st')"
          using False gb Inr r by (intro cache_run.run_chunk) (simp_all add: forward_of_def)
        then show ?thesis using False gb Inr r by (auto simp: cache_body_def)
      qed
    qed
  qed
qed

lemma evaluate_cache_run_forward_of:
  assumes "evaluate_cache_run ld (cm_begin_state model) (forward_of model) ds batch_size ncols bptt
             probs res"
  shows "res = evaluate_cache ld model ds batch_size ncols bptt"
  using assms cache_run_forward_of [of ld model ncols bptt ds _ "cache_init model batch_size"]
  by (auto simp: evaluate_cache_run_def evaluate_cache_def cache_init_def split: if_splits)

lemma evaluate_cache_run_exists:
  "\<exists>probs. evaluate_cache_run ld (cm_begin_state model) (forward_of model) ds batch_size ncols bptt
             probs (evaluate_cache ld model ds batch_size ncols bptt)"
  using cache_run_exists [of ld model ncols bptt ds _ "cache_init model batch_size"]
  by (simp add: evaluate_cache_run_def evaluate_cache_def cache_init_def)

lemma example_run:
  "evaluate_cache_run id (cm_begin_state example_cache_model) (forward_of example_cache_model)
     [10, 11, 12] 1 1 2 [1 / 13, 1 / 14] (Inr (chunk_loss [1 / 13, 1 / 14] / 3))"
proof -
  let ?ds = "[10, 11, 12 :: nat]"
  let ?fw = "forward_of example_cache_model"
  let ?init = "\<lparr>total_L = 0, next_word_history = None :: nat option,
                cache_history = None :: nat option,
                hidden = cm_begin_state example_cache_model 1\<rparr>"
  let ?st' = "\<lparr>total_L = total_L ?init + chunk_loss [1 / 13, 1 / 14] / real (1::nat),
                next_word_history = Some (2::nat), cache_history = Some (2::nat),
                hidden = detach id (PyList [Leaf (0::nat)])\<rparr>"
  have cursors: "py_range 0 2 2 = [0]"
    by (simp add: py_range.simps)
  have gb: "get_batch 2 ?ds 0 None = Inr ([10, 11], [11, 12])"
    by (simp add: get_batch_def py_slice_def slice_bound_def window_size_def)
  have fw: "?fw [10, 11] [11, 12] (next_word_history ?init) (cache_history ?init) (hidden ?init)
              (Inr ([1 / 13, 1 / 14], Some 2, Some 2, PyList [Leaf 0]))"
    by (simp add: forward_of_def example_cache_model_def)
  have rest: "cache_run id ?fw 1 2 ?ds [] ?st' [] (final_loss ?ds ?st')"
    by (rule cache_run.run_exhausted)
  have "cache_run id ?fw 1 2 ?ds [0] ?init ([1 / 13, 1 / 14] @ []) (final_loss ?ds ?st')"
    by (rule cache_run.run_chunk [OF _ gb fw rest]) simp
  then have "cache_run id ?fw 1 2 ?ds [0] ?init [1 / 13, 1 / 14]
               (Inr (chunk_loss [1 / 13, 1 / 14] / 3))"
    by (simp add: final_loss_def)
  then show ?thesis
    by (simp add: evaluate_cache_run_def cursors)
qed

text \<open>
  Claim C7. \<open>evaluate_cache\<close> adds no nondeterminism of its own: over a forward
  call that is deterministic, two runs on the same data source, batch size, shape
  and window, each from fresh \<^verbatim>\<open>None\<close> histories and the model's begin state, end
  with the same result (the same loss or the same error) and read the same
  sequence of blended probabilities.
\<close>

theorem evaluate_cache_deterministic:
  assumes "deterministic fw"
    and "evaluate_cache_run ld begin_state fw ds batch_size ncols bptt probs1 res1"
    and "evaluate_cache_run ld begin_state fw ds batch_size ncols bptt probs2 res2"
  shows "res1 = res2 \<and> probs1 = probs2"
proof (cases "bptt = 0")
  case True
  then show ?thesis using assms(2,3) by (simp add: evaluate_cache_run_def)
next
  case False
  let ?init = "\<lparr>total_L = 0, next_word_history = None, cache_history = None,
                hidden = begin_state batch_size\<rparr>"
  let ?cursors = "py_range 0 (int (length ds) - 1) bptt"
  have r1: "cache_run ld fw ncols bptt ds ?cursors ?init probs1 res1"
    using assms(2) False by (simp add: evaluate_cache_run_def)
  have r2: "cache_run ld fw ncols bptt ds ?cursors ?init probs2 res2"
    using assms(3) False by (simp add: evaluate_cache_run_def)
  show ?thesis
    using cache_run_deterministic [OF assms(1) r1 r2] by simp
qed

theorem evaluate_cache_deterministic_witness:
  "deterministic (forward_of example_cache_model)
   \<and> evaluate_cache_run id (cm_begin_state example_cache_model) (forward_of example_cache_model)
       [10, 11, 12] 1 1 2 [1 / 13, 1 / 14] (Inr (chunk_loss [1 / 13, 1 / 14] / 3))
   \<and> evaluate_cache id example_cache_model [10, 11, 12] 1 1 2
       = Inr (chunk_loss [1 / 13, 1 / 14] / 3)"
proof -
  obtain probs where second:
    "evaluate_cache_run id (cm_begin_state example_cache_model) (forward_of example_cache_model)
       [10, 11, 12] 1 1 2 probs (evaluate_cache id example_cache_model [10, 11, 12] 1 1 2)"
    using evaluate_cache_run_exists by blast
  have "Inr (chunk_loss [1 / 13, 1 / 14] / 3) = evaluate_cache id example_cache_model [10, 11, 12] 1 1 2
        \<and> [1 / 13, 1 / 14] = probs"
    using evaluate_cache_deterministic [OF forward_of_deterministic example_run second] .
  then have same: "evaluate_cache id example_cache_model [10, 11, 12] 1 1 2
                     = Inr (chunk_loss [1 / 13, 1 / 14] / 3)"
    by (elim conjE) (rule sym)
  show ?thesis
    using forward_of_deterministic [of example_cache_model] example_run same
    by (intro conjI)
qed

section \<open>The cache scorer with an empty history\<close>

lemma similarity_pos: "0 < similarity cfg h_t entry"
  by (simp add: similarity_def)

lemma sum_similarity_pos:
  "entries \<noteq> [] \<Longrightarrow> 0 < sum_list (map (similarity cfg h_t) entries)"
  by (induction entries) (auto simp: similarity_pos add_pos_nonneg sum_list_nonneg less_imp_le
        intro!: add_pos_nonneg sum_list_nonneg)

lemma p_blend_never_divides_by_zero:
  "\<exists>v. p_blend cfg history h_t p_model y = Inr v"
proof (cases "recent_entries cfg history = []")
  case True
  then show ?thesis by (simp add: p_blend_def p_cache_def)
next
  case False
  then have "sum_list (map (similarity cfg h_t) (recent_entries cfg history)) \<noteq> 0"
    using sum_similarity_pos [of "recent_entries cfg history" cfg h_t] by simp
  then show ?thesis using False by (simp add: p_blend_def p_cache_def Let_def)
qed

text \<open>
  Claim C5. With an empty cache history (the state at the start of an evaluation
  pass, where \<open>evaluate_cache\<close> passes \<^verbatim>\<open>None\<close> for both histories) the cache
  distribution has zero mass, and the blended probability of every token \<open>y\<close> is
  \<open>(1 - lambda_mix) * p_model y\<close>; the computation is a value, not a division by
  zero.
\<close>

theorem p_blend_empty_history:
  "p_cache cfg [] h_t y = Inr 0
   \<and> p_blend cfg [] h_t p_model y = Inr ((1 - lambda_mix cfg) * p_model y)"
  by (simp add: p_blend_def p_cache_def recent_entries_def)

end
